theory Spec2Isabelle
  imports Main "HOL-Library.Word"
begin

section \<open>JavaScript values\<close>

text \<open>
  The program is one file, \<^verbatim>\<open>server.js\<close>: a normalizer \<^verbatim>\<open>toFantasyStat\<close> and the
  handler of \<^verbatim>\<open>POST /api/fotmob/player-stats-batch\<close>. Both work on untyped data: the
  request body parsed by \<^verbatim>\<open>express.json\<close> and whatever the FotMob wrapper returns.
  The values are modelled as JSON-like trees. An object is the list of its own
  properties, looked up by key (the first binding of a key is the property). Functions,
  symbols, getters and cyclic structures are not values of the model.

  A number is an integer from \<open>-2^53\<close> to \<open>2^53 - 1\<close>, held as a 54-bit word and read
  by \<open>sint\<close> (goals, minutes, cards, identifiers and season years are such integers).
  Every one of them is a double, is printed by \<^verbatim>\<open>String\<close> in plain decimal, and is
  falsy only when it is 0. Fractions, larger numbers, \<^verbatim>\<open>NaN\<close> and the infinities are
  not values of the model; a numeral outside the range is not the number it spells.
\<close>

datatype jsval =
    JUndefined
  | JNull
  | JBool bool
  | JNum "54 word"
  | JStr string
  | JArr "jsval list"
  | JObj "(string \<times> jsval) list"

text \<open>
  What a \<^verbatim>\<open>throw\<close> or a rejected promise carries: a \<^verbatim>\<open>TypeError\<close> raised by the
  language itself, or the value the provider threw (any value can be thrown).
\<close>

datatype exn = TypeError | Thrown jsval

text \<open>
  The result of an arithmetic expression: a double whose value is an integer (of any
  size), \<^verbatim>\<open>NaN\<close>, or a number the model does not determine (\<open>NumOther\<close>: the number
  a string or an array converts to, which depends on the numeric-literal grammar and may
  be fractional or infinite).
\<close>

datatype jsnum = NumInt int | NumNaN | NumOther

text \<open>\<^verbatim>\<open>ToBoolean\<close>: what \<^verbatim>\<open>||\<close>, \<^verbatim>\<open>&&\<close> and \<^verbatim>\<open>!\<close> test.\<close>

fun truthy :: "jsval \<Rightarrow> bool" where
  "truthy JUndefined = False"
| "truthy JNull = False"
| "truthy (JBool b) = b"
| "truthy (JNum n) = (n \<noteq> 0)"
| "truthy (JStr s) = (s \<noteq> [])"
| "truthy (JArr xs) = True"
| "truthy (JObj kvs) = True"

fun nullish :: "jsval \<Rightarrow> bool" where
  "nullish JUndefined = True"
| "nullish JNull = True"
| "nullish v = False"

definition js_or :: "jsval \<Rightarrow> jsval \<Rightarrow> jsval" where
  "js_or a b = (if truthy a then a else b)"

definition js_and :: "jsval \<Rightarrow> jsval \<Rightarrow> jsval" where
  "js_and a b = (if truthy a then b else a)"

text \<open>
  Reading a named property of a value that is neither \<^verbatim>\<open>null\<close> nor \<^verbatim>\<open>undefined\<close>.
  The program reads only the literal keys \<^verbatim>\<open>players\<close>, \<^verbatim>\<open>id\<close>, \<^verbatim>\<open>stats\<close>,
  \<^verbatim>\<open>seasons\<close>, \<^verbatim>\<open>season\<close>, \<^verbatim>\<open>message\<close> and the twelve stat keys; none of them is
  an index, \<^verbatim>\<open>length\<close> or a member of a built-in prototype, so only an object's own
  property can answer, and a primitive or an array answers \<^verbatim>\<open>undefined\<close>.
\<close>

fun get :: "jsval \<Rightarrow> string \<Rightarrow> jsval" where
  "get (JObj kvs) k = (case map_of kvs k of None \<Rightarrow> JUndefined | Some v \<Rightarrow> v)"
| "get v k = JUndefined"

text \<open>\<^verbatim>\<open>v?.k\<close>: \<^verbatim>\<open>undefined\<close> on \<^verbatim>\<open>null\<close> and \<^verbatim>\<open>undefined\<close>, the property otherwise.\<close>

definition opt_get :: "jsval \<Rightarrow> string \<Rightarrow> jsval" where
  "opt_get v k = (if nullish v then JUndefined else get v k)"

text \<open>\<^verbatim>\<open>v.k\<close>: a \<^verbatim>\<open>TypeError\<close> on \<^verbatim>\<open>null\<close> and \<^verbatim>\<open>undefined\<close>.\<close>

definition dot_get :: "jsval \<Rightarrow> string \<Rightarrow> exn + jsval" where
  "dot_get v k = (if nullish v then Inl TypeError else Inr (get v k))"

text \<open>
  \<^verbatim>\<open>v[0]\<close> on a value that is not nullish: the first element of an array, the first
  character of a string, the own property \<^verbatim>\<open>"0"\<close> of an object.
\<close>

fun index0 :: "jsval \<Rightarrow> jsval" where
  "index0 (JArr []) = JUndefined"
| "index0 (JArr (x # xs)) = x"
| "index0 (JStr []) = JUndefined"
| "index0 (JStr (c # cs)) = JStr [c]"
| "index0 (JObj kvs) = get (JObj kvs) ''0''"
| "index0 v = JUndefined"

subsection \<open>Conversions\<close>

definition digit_char :: "nat \<Rightarrow> char" where
  "digit_char d = ''0123456789'' ! d"

fun digits :: "nat \<Rightarrow> string" where
  "digits n = (if n < 10 then [digit_char n] else digits (n div 10) @ [digit_char (n mod 10)])"

definition show_int :: "int \<Rightarrow> string" where
  "show_int i = (if i < 0 then CHR ''-'' # digits (nat (- i)) else digits (nat i))"

text \<open>
  \<^verbatim>\<open>ToString\<close>, which \<^verbatim>\<open>String(v)\<close> and a computed property key \<^verbatim>\<open>out[v]\<close> apply.
  An array is joined with commas, \<^verbatim>\<open>null\<close> and \<^verbatim>\<open>undefined\<close> elements printing as
  the empty string. A plain object prints as \<^verbatim>\<open>[object Object]\<close> through the inherited
  \<^verbatim>\<open>toString\<close>; when the object has an own property \<^verbatim>\<open>toString\<close> (which, being data,
  is not callable) the inherited method is shadowed, \<^verbatim>\<open>valueOf\<close> returns the object
  itself, and the conversion throws a \<^verbatim>\<open>TypeError\<close>.
\<close>

fun to_string :: "jsval \<Rightarrow> exn + string"
  and join :: "jsval list \<Rightarrow> exn + string" where
  "to_string JUndefined = Inr ''undefined''"
| "to_string JNull = Inr ''null''"
| "to_string (JBool b) = Inr (if b then ''true'' else ''false'')"
| "to_string (JNum n) = Inr (show_int (sint n))"
| "to_string (JStr s) = Inr s"
| "to_string (JArr xs) = join xs"
| "to_string (JObj kvs) =
     (if ''toString'' \<in> fst ` set kvs then Inl TypeError else Inr ''[object Object]'')"
| "join [] = Inr []"
| "join (x # xs) =
     (case (if nullish x then Inr [] else to_string x) of
        Inl e \<Rightarrow> Inl e
      | Inr s \<Rightarrow>
          (if xs = [] then Inr s
           else (case join xs of Inl e \<Rightarrow> Inl e | Inr t \<Rightarrow> Inr (s @ '','' @ t))))"

text \<open>
  \<^verbatim>\<open>ToNumber\<close>, which the operator \<^verbatim>\<open>-\<close> applies to both operands. An array is
  first converted to its string, a string is then parsed as a numeric literal; the
  parsed number is not determined by the model.
\<close>

fun to_number :: "jsval \<Rightarrow> exn + jsnum" where
  "to_number JUndefined = Inr NumNaN"
| "to_number JNull = Inr (NumInt 0)"
| "to_number (JBool b) = Inr (NumInt (if b then 1 else 0))"
| "to_number (JNum n) = Inr (NumInt (sint n))"
| "to_number (JStr s) = Inr NumOther"
| "to_number (JArr xs) = (case join xs of Inl e \<Rightarrow> Inl e | Inr s \<Rightarrow> Inr NumOther)"
| "to_number (JObj kvs) =
     (if ''toString'' \<in> fst ` set kvs then Inl TypeError else Inr NumNaN)"

text \<open>
  The double nearest to the integer \<open>d\<close>, ties going to the even mantissa. Up to
  \<open>2^53\<close> in magnitude every integer is a double. From there to \<open>2^54\<close> the doubles are
  the even integers: an odd \<open>d\<close> lies halfway between two of them, and the one that is a
  multiple of 4 has the even mantissa. Beyond \<open>2^54\<close> the model does not determine the
  result.
\<close>

definition nearest_double :: "int \<Rightarrow> jsnum" where
  "nearest_double d =
     (if \<bar>d\<bar> \<le> 2 ^ 53 then NumInt d
      else if \<bar>d\<bar> < 2 ^ 54 then
        NumInt (if even d then d else if 4 dvd d + 1 then d + 1 else d - 1)
      else NumOther)"

text \<open>The subtraction of two numbers: the exact difference, rounded to a double.\<close>

fun num_sub :: "jsnum \<Rightarrow> jsnum \<Rightarrow> jsnum" where
  "num_sub (NumInt a) (NumInt b) = nearest_double (a - b)"
| "num_sub NumNaN y = NumNaN"
| "num_sub x NumNaN = NumNaN"
| "num_sub x y = NumOther"

text \<open>\<^verbatim>\<open>a - b\<close>: the left operand is converted first.\<close>

definition js_sub :: "jsval \<Rightarrow> jsval \<Rightarrow> exn + jsnum" where
  "js_sub a b =
     (case to_number a of
        Inl e \<Rightarrow> Inl e
      | Inr x \<Rightarrow> (case to_number b of Inl e \<Rightarrow> Inl e | Inr y \<Rightarrow> Inr (num_sub x y)))"

text \<open>\<^verbatim>\<open>Math.max(0, x)\<close> on a number.\<close>

fun max0 :: "jsnum \<Rightarrow> jsnum" where
  "max0 (NumInt d) = NumInt (max 0 d)"
| "max0 NumNaN = NumNaN"
| "max0 NumOther = NumOther"

text \<open>\<^verbatim>\<open>s.includes(sub)\<close>: \<open>sub\<close> occurs in \<open>s\<close> as a contiguous substring.\<close>

fun str_includes :: "string \<Rightarrow> string \<Rightarrow> bool" where
  "str_includes [] sub = (sub = [])"
| "str_includes (c # cs) sub = (take (length sub) (c # cs) = sub \<or> str_includes cs sub)"

section \<open>The normalizer\<close>

text \<open>The record \<^verbatim>\<open>toFantasyStat\<close> returns, field for field. \<open>name\<close> is the
  argument as it was passed; \<open>nonPenaltyGoals\<close> is the number \<^verbatim>\<open>Math.max\<close> returns; the
  other stat fields hold whichever value the fallback selected.\<close>

record FantasyStat =
  name :: jsval
  nonPenaltyGoals :: jsnum
  penaltyGoals :: jsval
  assists :: jsval
  minutes :: jsval
  yellowCards :: jsval
  redCards :: jsval
  motm :: bool

text \<open>The six constants \<^verbatim>\<open>minutes\<close>, \<^verbatim>\<open>goalsTotal\<close>, \<^verbatim>\<open>pens\<close>, \<^verbatim>\<open>assists\<close>,
  \<^verbatim>\<open>yellow\<close> and \<^verbatim>\<open>red\<close> of lines 18 to 23, each
  \<^verbatim>\<open>fm?.stats?.K || fm?.L?.M || 0\<close>.\<close>

datatype field = Minutes | GoalsTotal | Pens | Assists | Yellow | Red

fun stats_val :: "field \<Rightarrow> jsval \<Rightarrow> jsval" where
  "stats_val Minutes fm = opt_get (opt_get fm ''stats'') ''minutes''"
| "stats_val GoalsTotal fm = opt_get (opt_get fm ''stats'') ''goals''"
| "stats_val Pens fm = opt_get (opt_get fm ''stats'') ''penaltiesScored''"
| "stats_val Assists fm = opt_get (opt_get fm ''stats'') ''assists''"
| "stats_val Yellow fm = opt_get (opt_get fm ''stats'') ''yellow''"
| "stats_val Red fm = opt_get (opt_get fm ''stats'') ''red''"

fun legacy_val :: "field \<Rightarrow> jsval \<Rightarrow> jsval" where
  "legacy_val Minutes fm = opt_get (opt_get fm ''games'') ''minutes''"
| "legacy_val GoalsTotal fm = opt_get (opt_get fm ''goals'') ''total''"
| "legacy_val Pens fm = opt_get (opt_get fm ''penalty'') ''scored''"
| "legacy_val Assists fm = opt_get (opt_get fm ''goals'') ''assists''"
| "legacy_val Yellow fm = opt_get (opt_get fm ''cards'') ''yellow''"
| "legacy_val Red fm = opt_get (opt_get fm ''cards'') ''red''"

definition selected :: "field \<Rightarrow> jsval \<Rightarrow> jsval" where
  "selected f fm = js_or (js_or (stats_val f fm) (legacy_val f fm)) (JNum 0)"

text \<open>Line 24. The only expression that can throw is the subtraction.\<close>

definition toFantasyStat :: "jsval \<Rightarrow> jsval \<Rightarrow> exn + FantasyStat" where
  "toFantasyStat nm fm =
     (case js_sub (selected GoalsTotal fm) (selected Pens fm) of
        Inl e \<Rightarrow> Inl e
      | Inr d \<Rightarrow>
          Inr \<lparr> name = nm,
                nonPenaltyGoals = max0 d,
                penaltyGoals = js_or (selected Pens fm) (JNum 0),
                assists = js_or (selected Assists fm) (JNum 0),
                minutes = selected Minutes fm,
                yellowCards = js_or (selected Yellow fm) (JNum 0),
                redCards = js_or (selected Red fm) (JNum 0),
                motm = False \<rparr>)"

text \<open>The record with every stat at zero.\<close>

definition zero_stat :: "jsval \<Rightarrow> FantasyStat" where
  "zero_stat nm =
     \<lparr> name = nm, nonPenaltyGoals = NumInt 0, penaltyGoals = JNum 0, assists = JNum 0,
       minutes = JNum 0, yellowCards = JNum 0, redCards = JNum 0, motm = False \<rparr>"


fun nonneg_num :: "jsnum \<Rightarrow> bool" where
  "nonneg_num (NumInt n) = (0 \<le> n)"
| "nonneg_num x = False"


section \<open>The provider\<close>

text \<open>
  \<^verbatim>\<open>fotmob.search\<close> and \<^verbatim>\<open>fotmob.player\<close> are calls to a remote service. Each call
  either returns a value or throws one, and may depend on the calls before it: the
  provider has a state \<open>'p\<close> that each call reads and replaces. A call that never settles
  is not a behaviour of the model.
\<close>

datatype outcome = Returns jsval | Throws jsval

record 'p fotmob =
  search :: "'p \<Rightarrow> jsval \<Rightarrow> outcome \<times> 'p"
  player :: "'p \<Rightarrow> jsval \<Rightarrow> outcome \<times> 'p"

datatype call = Search jsval | Player jsval

section \<open>The handler\<close>

text \<open>
  What the handler has while it runs: \<open>out\<close>, the own enumerable properties of the
  object \<^verbatim>\<open>out\<close> (what \<^verbatim>\<open>res.json\<close> serialises); the provider calls made so far; the
  provider's state.
\<close>

record 'p world =
  out :: "string \<rightharpoonup> FantasyStat"
  calls :: "call list"
  prov :: 'p

text \<open>
  \<^verbatim>\<open>out[k] = v\<close> on the plain object \<^verbatim>\<open>out = {}\<close>, for a value \<open>v\<close> that is an object.
  Every key creates or overwrites an own property, except \<^verbatim>\<open>__proto__\<close>: that key is
  an accessor inherited from \<^verbatim>\<open>Object.prototype\<close>, whose setter replaces the prototype
  of \<^verbatim>\<open>out\<close> and creates no own property.
\<close>

definition set_prop ::
  "(string \<rightharpoonup> FantasyStat) \<Rightarrow> string \<Rightarrow> FantasyStat \<Rightarrow> (string \<rightharpoonup> FantasyStat)" where
  "set_prop m k v = (if k = ''__proto__'' then m else m(k \<mapsto> v))"

text \<open>\<^verbatim>\<open>out[name] = toFantasyStat(name, fm)\<close>: the normalizer may throw, and so may the
  conversion of \<open>name\<close> to a property key.\<close>

definition assign :: "jsval \<Rightarrow> jsval \<Rightarrow> 'p world \<Rightarrow> exn option \<times> 'p world" where
  "assign nm fm w =
     (case toFantasyStat nm fm of
        Inl e \<Rightarrow> (Some e, w)
      | Inr st \<Rightarrow>
          (case to_string nm of
             Inl e \<Rightarrow> (Some e, w)
           | Inr k \<Rightarrow> (None, w\<lparr> out := set_prop (out w) k st \<rparr>)))"

text \<open>Line 39: \<^verbatim>\<open>(results?.players && results.players[0]) || null\<close>.\<close>

definition best_of :: "jsval \<Rightarrow> jsval" where
  "best_of results =
     js_or (js_and (opt_get results ''players'') (index0 (get results ''players''))) JNull"

text \<open>Line 44, the callback \<^verbatim>\<open>s => String(s.season).includes('2025')\<close>.\<close>

definition season_matches :: "jsval \<Rightarrow> exn + bool" where
  "season_matches s =
     (case dot_get s ''season'' of
        Inl e \<Rightarrow> Inl e
      | Inr v \<Rightarrow> (case to_string v of Inl e \<Rightarrow> Inl e | Inr t \<Rightarrow> Inr (str_includes t ''2025'')))"

text \<open>\<^verbatim>\<open>Array.prototype.find\<close> with that callback: the first element it accepts,
  \<^verbatim>\<open>undefined\<close> when there is none; a throw of the callback ends the search.\<close>

fun array_find :: "jsval list \<Rightarrow> exn + jsval" where
  "array_find [] = Inr JUndefined"
| "array_find (s # ss) =
     (case season_matches s of
        Inl e \<Rightarrow> Inl e
      | Inr b \<Rightarrow> (if b then Inr s else array_find ss))"

text \<open>
  \<^verbatim>\<open>pdata?.stats?.seasons?.find?.(...)\<close>. An array has the method \<^verbatim>\<open>find\<close>. An object
  has it only as an own property, which is data: unless it is nullish the call throws
  (not a function). Strings, numbers and booleans have no \<^verbatim>\<open>find\<close>.
\<close>

definition seasons_find :: "jsval \<Rightarrow> exn + jsval" where
  "seasons_find pdata =
     (case opt_get (opt_get pdata ''stats'') ''seasons'' of
        JArr ss \<Rightarrow> array_find ss
      | JObj kvs \<Rightarrow> (if nullish (get (JObj kvs) ''find'') then Inr JUndefined else Inl TypeError)
      | _ \<Rightarrow> Inr JUndefined)"

text \<open>Line 44: \<^verbatim>\<open>seasonAgg = pdata?.stats?.seasons?.find?.(...) || pdata?.stats\<close>.\<close>

definition seasonAgg :: "jsval \<Rightarrow> exn + jsval" where
  "seasonAgg pdata =
     (case seasons_find pdata of
        Inl e \<Rightarrow> Inl e
      | Inr v \<Rightarrow> Inr (js_or v (opt_get pdata ''stats'')))"

text \<open>Lines 37 to 45, the body of the inner \<^verbatim>\<open>try\<close>. \<open>Some e\<close>: it threw \<open>e\<close>.\<close>

definition try_body :: "'p fotmob \<Rightarrow> jsval \<Rightarrow> 'p world \<Rightarrow> exn option \<times> 'p world" where
  "try_body fotmob nm w =
     (case search fotmob (prov w) nm of
        (r, p1) \<Rightarrow>
          (let w1 = w\<lparr> calls := calls w @ [Search nm], prov := p1 \<rparr> in
           case r of
             Throws e \<Rightarrow> (Some (Thrown e), w1)
           | Returns results \<Rightarrow>
               (let best = best_of results in
                if \<not> truthy (opt_get best ''id'') then assign nm JNull w1
                else
                  (case player fotmob (prov w1) (get best ''id'') of
                     (r2, p2) \<Rightarrow>
                       (let w2 = w1\<lparr> calls := calls w1 @ [Player (get best ''id'')], prov := p2 \<rparr> in
                        case r2 of
                          Throws e \<Rightarrow> (Some (Thrown e), w2)
                        | Returns pdata \<Rightarrow>
                            (case seasonAgg pdata of
                               Inl e \<Rightarrow> (Some e, w2)
                             | Inr agg \<Rightarrow> assign nm (js_or agg pdata) w2))))))"

text \<open>
  Lines 46 to 49, the \<^verbatim>\<open>catch (e)\<close> block. The log line reads \<^verbatim>\<open>e.message\<close>, which
  throws when the caught value is \<^verbatim>\<open>null\<close> or \<^verbatim>\<open>undefined\<close>; what is logged is not
  modelled.
\<close>

fun read_message :: "exn \<Rightarrow> exn option" where
  "read_message TypeError = None"
| "read_message (Thrown v) = (if nullish v then Some TypeError else None)"

definition catch_block :: "exn \<Rightarrow> jsval \<Rightarrow> 'p world \<Rightarrow> exn option \<times> 'p world" where
  "catch_block e nm w =
     (case read_message e of
        Some e' \<Rightarrow> (Some e', w)
      | None \<Rightarrow> assign nm JNull w)"

text \<open>One iteration of the loop of line 35.\<close>

definition resolve_name :: "'p fotmob \<Rightarrow> jsval \<Rightarrow> 'p world \<Rightarrow> exn option \<times> 'p world" where
  "resolve_name fotmob nm w =
     (case try_body fotmob nm w of
        (None, w') \<Rightarrow> (None, w')
      | (Some e, w') \<Rightarrow> catch_block e nm w')"

fun for_loop :: "'p fotmob \<Rightarrow> jsval list \<Rightarrow> 'p world \<Rightarrow> exn option \<times> 'p world" where
  "for_loop fotmob [] w = (None, w)"
| "for_loop fotmob (nm # nms) w =
     (case resolve_name fotmob nm w of
        (Some e, w') \<Rightarrow> (Some e, w')
      | (None, w') \<Rightarrow> for_loop fotmob nms w')"

datatype body = ErrorBody string | StatsBody "string \<rightharpoonup> FantasyStat"

record response =
  status :: nat
  payload :: body

text \<open>
  Lines 28 to 57. The argument is \<^verbatim>\<open>req.body\<close>; the result is the response sent, the
  provider calls made, in order, and the provider's state afterwards.
  \<^verbatim>\<open>res.json\<close> answers with status 200.
\<close>

definition handler :: "'p fotmob \<Rightarrow> 'p \<Rightarrow> jsval \<Rightarrow> response \<times> call list \<times> 'p" where
  "handler fotmob p reqbody =
     (case dot_get reqbody ''players'' of
        Inl e \<Rightarrow> (\<lparr> status = 500, payload = ErrorBody ''server_error'' \<rparr>, [], p)
      | Inr pl \<Rightarrow>
          (let players = (case pl of JArr xs \<Rightarrow> xs | _ \<Rightarrow> []) in
           if players = [] then
             (\<lparr> status = 400, payload = ErrorBody ''players array required'' \<rparr>, [], p)
           else
             (case for_loop fotmob players \<lparr> out = Map.empty, calls = [], prov = p \<rparr> of
                (Some e, w) \<Rightarrow>
                  (\<lparr> status = 500, payload = ErrorBody ''server_error'' \<rparr>, calls w, prov w)
              | (None, w) \<Rightarrow>
                  (\<lparr> status = 200, payload = StatsBody (out w) \<rparr>, calls w, prov w))))"

section \<open>Providers used as examples\<close>

text \<open>A provider without memory, given by what each call answers.\<close>

definition stateless :: "(jsval \<Rightarrow> outcome) \<Rightarrow> (jsval \<Rightarrow> outcome) \<Rightarrow> unit fotmob" where
  "stateless s d = \<lparr> search = (\<lambda>p n. (s n, p)), player = (\<lambda>p i. (d i, p)) \<rparr>"

text \<open>The search finds nobody.\<close>

definition nobody :: "unit fotmob" where
  "nobody = stateless (\<lambda>n. Returns (JObj [(''players'', JArr [])])) (\<lambda>i. Returns JUndefined)"

text \<open>The search answers one candidate whose identifier is the name itself; the
  detail call answers the blob \<open>d\<close> computes from the identifier.\<close>

definition found :: "(jsval \<Rightarrow> outcome) \<Rightarrow> unit fotmob" where
  "found d = stateless (\<lambda>n. Returns (JObj [(''players'', JArr [JObj [(''id'', n)]])])) d"

definition players_body :: "string list \<Rightarrow> jsval" where
  "players_body nms = JObj [(''players'', JArr (map JStr nms))]"

text \<open>\<^verbatim>\<open>Array.isArray\<close>.\<close>

fun is_array :: "jsval \<Rightarrow> bool" where
  "is_array (JArr xs) = True"
| "is_array v = False"

text \<open>A probed path that does not resolve, or holds an integer.\<close>

fun absent_or_int :: "jsval \<Rightarrow> bool" where
  "absent_or_int JUndefined = True"
| "absent_or_int (JNum n) = True"
| "absent_or_int v = False"

section \<open>Facts about the normalizer\<close>

lemma toFantasyStat_null: "toFantasyStat nm JNull = Inr (zero_stat nm)"
  by (simp add: toFantasyStat_def zero_stat_def selected_def opt_get_def js_or_def js_sub_def
      nearest_double_def)

lemma name_zero_stat: "name (zero_stat nm) = nm"
  by (simp add: zero_stat_def)

lemma fallback_int:
  "absent_or_int a \<Longrightarrow> absent_or_int b \<Longrightarrow> \<exists>n. js_or (js_or a b) (JNum 0) = JNum n"
  by (cases a; cases b) (simp_all add: js_or_def)

text \<open>The numbers of the model, and their differences.\<close>

lemma sint_number_range: "- (2 ^ 53) \<le> sint (w :: 54 word) \<and> sint w < 2 ^ 53"
  using sint_ge [of w] sint_lt [of w] by simp


lemma nearest_double_exact: "\<bar>d\<bar> \<le> 2 ^ 53 \<Longrightarrow> nearest_double d = NumInt d"
  by (simp add: nearest_double_def)

lemma nearest_double_integer: "\<bar>d\<bar> < 2 ^ 54 \<Longrightarrow> \<exists>k. nearest_double d = NumInt k"
  by (simp add: nearest_double_def)

lemma max0_nonneg: "nonneg_num (max0 x) = (\<exists>k. x = NumInt k)"
  by (cases x) simp_all



text \<open>When the two selected goal counts are integers the subtraction cannot throw,
  and the record is the one line 24 builds.\<close>

lemma toFantasyStat_ints:
  assumes "selected GoalsTotal fm = JNum g" and "selected Pens fm = JNum p"
  shows "toFantasyStat nm fm =
     Inr \<lparr> name = nm, nonPenaltyGoals = max0 (nearest_double (sint g - sint p)),
           penaltyGoals = js_or (JNum p) (JNum 0),
           assists = js_or (selected Assists fm) (JNum 0), minutes = selected Minutes fm,
           yellowCards = js_or (selected Yellow fm) (JNum 0),
           redCards = js_or (selected Red fm) (JNum 0), motm = False \<rparr>"
  using assms by (simp add: toFantasyStat_def js_sub_def)

text \<open>Whatever the language itself throws in this program is a \<^verbatim>\<open>TypeError\<close>.\<close>

lemma to_string_throws: "to_string v = Inl e \<Longrightarrow> e = TypeError"
  and join_throws: "join xs = Inl e \<Longrightarrow> e = TypeError"
  by (induction v and xs rule: to_string_join.induct) (auto split: if_splits sum.splits)

lemma to_number_throws: "to_number v = Inl e \<Longrightarrow> e = TypeError"
  by (cases v) (auto split: if_splits sum.splits dest: join_throws)

lemma toFantasyStat_throws_TypeError: "toFantasyStat nm fm = Inl e \<Longrightarrow> e = TypeError"
  by (auto simp: toFantasyStat_def js_sub_def split: sum.splits dest: to_number_throws)

lemma toFantasyStat_name: "toFantasyStat nm fm = Inr st \<Longrightarrow> name st = nm"
  by (auto simp: toFantasyStat_def split: sum.splits)

text \<open>The normalizer returns a record whenever the two selected goal counts convert
  to numbers; the empty object gives the zero record, as \<^verbatim>\<open>null\<close> does.\<close>

lemma toFantasyStat_returns:
  assumes "to_number (selected GoalsTotal fm) = Inr x" and "to_number (selected Pens fm) = Inr y"
  shows "\<exists>r. toFantasyStat nm fm = Inr r"
  using assms by (simp add: toFantasyStat_def js_sub_def)

lemma toFantasyStat_empty_object: "toFantasyStat nm (JObj []) = Inr (zero_stat nm)"
  by (simp add: toFantasyStat_def zero_stat_def selected_def opt_get_def js_or_def js_sub_def
      nearest_double_def)

section \<open>Facts about one iteration\<close>

lemma assign_null:
  "assign (JStr n) JNull w = (None, w\<lparr> out := set_prop (out w) n (zero_stat (JStr n)) \<rparr>)"
  by (simp add: assign_def toFantasyStat_null)

lemma assign_string:
  "assign (JStr n) fm w = (Some TypeError, w)
   \<or> (\<exists>st. name st = JStr n \<and> assign (JStr n) fm w = (None, w\<lparr> out := set_prop (out w) n st \<rparr>))"
  by (cases "toFantasyStat (JStr n) fm")
     (auto simp: assign_def dest: toFantasyStat_throws_TypeError toFantasyStat_name)

lemma array_find_throws: "array_find ss = Inl e \<Longrightarrow> e = TypeError"
proof (induction ss)
  case Nil
  then show ?case by simp
next
  case (Cons s ss)
  then show ?case
    by (auto simp: season_matches_def dot_get_def split: sum.splits if_splits
        dest: to_string_throws)
qed

lemma seasonAgg_throws: "seasonAgg pdata = Inl e \<Longrightarrow> e = TypeError"
  by (auto simp: seasonAgg_def seasons_find_def split: sum.splits jsval.splits if_splits
      dest: array_find_throws)

lemma catch_block_string:
  assumes "read_message e = None"
  shows "catch_block e (JStr n) w = (None, w\<lparr> out := set_prop (out w) n (zero_stat (JStr n)) \<rparr>)"
  using assms by (simp add: catch_block_def assign_null)

lemma dom_set_prop: "dom (set_prop m k v) = dom m \<union> ({k} - {''__proto__''})"
  by (auto simp: set_prop_def)

text \<open>A second assignment under a key replaces the first: the last write wins.\<close>

lemma set_prop_overwrites: "set_prop (set_prop m k a) k b = set_prop m k b"
  by (simp add: set_prop_def)

text \<open>
  The inner \<^verbatim>\<open>try\<close> on a string name, for a provider that never throws \<^verbatim>\<open>null\<close> or
  \<^verbatim>\<open>undefined\<close>: it either throws something whose \<^verbatim>\<open>message\<close> can be read, or
  assigns a record carrying the name.
\<close>

lemma try_body_outcomes:
  assumes "\<forall>p x v p'. search fotmob p x = (Throws v, p') \<longrightarrow> \<not> nullish v"
    and "\<forall>p x v p'. player fotmob p x = (Throws v, p') \<longrightarrow> \<not> nullish v"
  shows "\<exists>w1. out w1 = out w \<and>
          ((\<exists>e. read_message e = None \<and> try_body fotmob (JStr n) w = (Some e, w1))
           \<or> (\<exists>st. name st = JStr n
                 \<and> try_body fotmob (JStr n) w = (None, w1\<lparr> out := set_prop (out w) n st \<rparr>)))"
proof -
  obtain r p1 where s: "search fotmob (prov w) (JStr n) = (r, p1)"
    by (cases "search fotmob (prov w) (JStr n)")
  let ?w1 = "w\<lparr> calls := calls w @ [Search (JStr n)], prov := p1 \<rparr>"
  show ?thesis
  proof (cases r)
    case (Throws v)
    then have "\<not> nullish v" using assms(1) s by blast
    then have "read_message (Thrown v) = None" by simp
    moreover have "try_body fotmob (JStr n) w = (Some (Thrown v), ?w1)"
      using s Throws by (simp add: try_body_def)
    ultimately show ?thesis by (intro exI [of _ ?w1]) auto
  next
    case (Returns results)
    show ?thesis
    proof (cases "truthy (opt_get (best_of results) ''id'')")
      case False
      then have "try_body fotmob (JStr n) w =
          (None, ?w1\<lparr> out := set_prop (out w) n (zero_stat (JStr n)) \<rparr>)"
        using s Returns by (simp add: try_body_def assign_null)
      then show ?thesis using name_zero_stat by (intro exI [of _ ?w1]) auto
    next
      case True
      let ?i = "get (best_of results) ''id''"
      obtain r2 p2 where d: "player fotmob p1 ?i = (r2, p2)"
        by (cases "player fotmob p1 ?i")
      let ?w2 = "?w1\<lparr> calls := calls ?w1 @ [Player ?i], prov := p2 \<rparr>"
      show ?thesis
      proof (cases r2)
        case (Throws v)
        then have "\<not> nullish v" using assms(2) d by blast
        then have "read_message (Thrown v) = None" by simp
        moreover have "try_body fotmob (JStr n) w = (Some (Thrown v), ?w2)"
          using s Returns True d Throws by (simp add: try_body_def)
        ultimately show ?thesis by (intro exI [of _ ?w2]) auto
      next
        case R2: (Returns pdata)
        show ?thesis
        proof (cases "seasonAgg pdata")
          case (Inl e)
          then have "e = TypeError" by (rule seasonAgg_throws)
          then have "try_body fotmob (JStr n) w = (Some TypeError, ?w2)"
            using s Returns True d R2 Inl by (simp add: try_body_def)
          then show ?thesis by (intro exI [of _ ?w2]) auto
        next
          case (Inr agg)
          then have t: "try_body fotmob (JStr n) w = assign (JStr n) (js_or agg pdata) ?w2"
            using s Returns True d R2 by (simp add: try_body_def)
          show ?thesis
            using assign_string [of n "js_or agg pdata" ?w2] t
            by (intro exI [of _ ?w2]) auto
        qed
      qed
    qed
  qed
qed

text \<open>So one iteration on a string name completes and assigns under that name.\<close>

lemma resolve_name_isolated:
  assumes "\<forall>p x v p'. search fotmob p x = (Throws v, p') \<longrightarrow> \<not> nullish v"
    and "\<forall>p x v p'. player fotmob p x = (Throws v, p') \<longrightarrow> \<not> nullish v"
  shows "\<exists>st w'. name st = JStr n \<and> resolve_name fotmob (JStr n) w = (None, w')
           \<and> out w' = set_prop (out w) n st"
proof -
  obtain w1 where o: "out w1 = out w"
    and c: "(\<exists>e. read_message e = None \<and> try_body fotmob (JStr n) w = (Some e, w1))
           \<or> (\<exists>st. name st = JStr n
                 \<and> try_body fotmob (JStr n) w = (None, w1\<lparr> out := set_prop (out w) n st \<rparr>))"
    using try_body_outcomes [OF assms, where w = w and n = n] by blast
  from c show ?thesis
  proof
    assume "\<exists>e. read_message e = None \<and> try_body fotmob (JStr n) w = (Some e, w1)"
    then obtain e where "read_message e = None" "try_body fotmob (JStr n) w = (Some e, w1)"
      by blast
    then have "resolve_name fotmob (JStr n) w =
        (None, w1\<lparr> out := set_prop (out w1) n (zero_stat (JStr n)) \<rparr>)"
      by (simp add: resolve_name_def catch_block_string)
    then show ?thesis using o name_zero_stat by auto
  next
    assume "\<exists>st. name st = JStr n
        \<and> try_body fotmob (JStr n) w = (None, w1\<lparr> out := set_prop (out w) n st \<rparr>)"
    then show ?thesis by (auto simp: resolve_name_def)
  qed
qed

text \<open>A search or a detail call that throws a value other than \<^verbatim>\<open>null\<close> and
  \<^verbatim>\<open>undefined\<close> leaves the zero record under the name.\<close>

lemma search_throw_zero_record:
  assumes "search fotmob (prov w) (JStr n) = (Throws v, p')" and "\<not> nullish v"
  shows "resolve_name fotmob (JStr n) w =
           (None, w\<lparr> out := set_prop (out w) n (zero_stat (JStr n)),
                      calls := calls w @ [Search (JStr n)], prov := p' \<rparr>)"
  using assms by (simp add: resolve_name_def try_body_def catch_block_def assign_null)

lemma detail_throw_zero_record:
  assumes "search fotmob (prov w) (JStr n) = (Returns results, p1)"
    and "truthy (opt_get (best_of results) ''id'')"
    and "player fotmob p1 (get (best_of results) ''id'') = (Throws v, p2)"
    and "\<not> nullish v"
  shows "resolve_name fotmob (JStr n) w =
           (None, w\<lparr> out := set_prop (out w) n (zero_stat (JStr n)),
                      calls := calls w @ [Search (JStr n), Player (get (best_of results) ''id'')],
                      prov := p2 \<rparr>)"
  using assms by (simp add: resolve_name_def try_body_def catch_block_def assign_null)

section \<open>Facts about the batch\<close>

text \<open>
  For string names and a provider that never throws \<^verbatim>\<open>null\<close> or \<^verbatim>\<open>undefined\<close> the
  loop runs to its end, and the keys it adds are the names other than \<^verbatim>\<open>__proto__\<close>.
\<close>

lemma for_loop_isolated:
  assumes "\<forall>p x v p'. search fotmob p x = (Throws v, p') \<longrightarrow> \<not> nullish v"
    and "\<forall>p x v p'. player fotmob p x = (Throws v, p') \<longrightarrow> \<not> nullish v"
  shows "\<exists>w'. for_loop fotmob (map JStr ns) w = (None, w')
           \<and> dom (out w') = dom (out w) \<union> (set ns - {''__proto__''})"
proof (induction ns arbitrary: w)
  case Nil
  then show ?case by simp
next
  case (Cons n ns)
  obtain st w1 where r: "resolve_name fotmob (JStr n) w = (None, w1)"
    and o: "out w1 = set_prop (out w) n st"
    using resolve_name_isolated [OF assms, where w = w and n = n] by blast
  obtain w' where l: "for_loop fotmob (map JStr ns) w1 = (None, w')"
    and d: "dom (out w') = dom (out w1) \<union> (set ns - {''__proto__''})"
    using Cons.IH [of w1] by blast
  have "for_loop fotmob (map JStr (n # ns)) w = (None, w')" using r l by simp
  moreover have "dom (out w') = dom (out w) \<union> (set (n # ns) - {''__proto__''})"
    using d o by (auto simp: dom_set_prop)
  ultimately show ?case by blast
qed

lemma handler_isolated:
  assumes "\<forall>p x v p'. search fotmob p x = (Throws v, p') \<longrightarrow> \<not> nullish v"
    and "\<forall>p x v p'. player fotmob p x = (Throws v, p') \<longrightarrow> \<not> nullish v"
    and "ns \<noteq> []"
  shows "\<exists>m cs p'. handler fotmob p (players_body ns) =
             (\<lparr> status = 200, payload = StatsBody m \<rparr>, cs, p')
           \<and> dom m = set ns - {''__proto__''}"
proof -
  obtain w' where
    l: "for_loop fotmob (map JStr ns) \<lparr> out = Map.empty, calls = [], prov = p \<rparr> = (None, w')"
    and d: "dom (out w') = set ns - {''__proto__''}"
    using for_loop_isolated [OF assms(1,2), where ns = ns
        and w = "\<lparr> out = Map.empty, calls = [], prov = p \<rparr>"] by auto
  have "handler fotmob p (players_body ns) =
          (\<lparr> status = 200, payload = StatsBody (out w') \<rparr>, calls w', prov w')"
    using l assms(3) by (simp add: handler_def players_body_def dot_get_def)
  then show ?thesis using d by blast
qed

section \<open>The claims\<close>

text \<open>
  C1 (per-name isolation: whatever a provider call does for one name, the answer has
  status 200 and holds a record for every requested name, the zero record for a failing
  one). The code does not keep this. In a batch of three names the detail call for the
  second rejects with \<^verbatim>\<open>undefined\<close>; the \<^verbatim>\<open>catch\<close> block reads \<^verbatim>\<open>e.message\<close>,
  which throws, and the whole batch is answered 500 after four provider calls. In a
  batch of two names the search for the name \<^verbatim>\<open>__proto__\<close> throws an error object; the
  answer is 200 but has no record for that name.
\<close>

theorem one_name_aborts_batch:
  "handler (found (\<lambda>i. if i = JStr ''B'' then Throws JUndefined
                        else Returns (JObj [(''stats'', JObj [(''goals'', JNum 3)])])))
     () (players_body [''A'', ''B'', ''C''])
   = (\<lparr> status = 500, payload = ErrorBody ''server_error'' \<rparr>,
      [Search (JStr ''A''), Player (JStr ''A''), Search (JStr ''B''), Player (JStr ''B'')], ())
   \<and> handler (stateless
         (\<lambda>n. if n = JStr ''__proto__'' then Throws (JObj [(''message'', JStr ''fetch failed'')])
               else Returns (JObj [(''players'', JArr [])]))
         (\<lambda>i. Returns JUndefined))
     () (players_body [''A'', ''__proto__''])
   = (\<lparr> status = 200, payload = StatsBody [''A'' \<mapsto> zero_stat (JStr ''A'')] \<rparr>,
      [Search (JStr ''A''), Search (JStr ''__proto__'')], ())"
  by (simp add: handler_def players_body_def dot_get_def found_def stateless_def
      resolve_name_def try_body_def catch_block_def assign_def best_of_def opt_get_def
      js_or_def js_and_def seasonAgg_def seasons_find_def toFantasyStat_def selected_def
      js_sub_def nearest_double_def set_prop_def zero_stat_def)

text \<open>
  C2 (the keys of the returned mapping are exactly the input names, duplicates
  collapsing to one key): the code breaks it for the name \<^verbatim>\<open>__proto__\<close>. The request
  \<^verbatim>\<open>{"players": ["__proto__"]}\<close> is answered 200 with the empty object: the
  assignment \<^verbatim>\<open>out["__proto__"] = ...\<close> creates no property.
\<close>

theorem proto_name_has_no_key:
  "handler nobody () (players_body [''__proto__'']) =
     (\<lparr> status = 200, payload = StatsBody Map.empty \<rparr>, [Search (JStr ''__proto__'')], ())"
  by (simp add: handler_def players_body_def dot_get_def nobody_def stateless_def
      resolve_name_def try_body_def assign_null best_of_def opt_get_def
      js_or_def js_and_def set_prop_def)

text \<open>
  C3, as amended: for every name and every blob whose total-goals and penalty-goals
  paths hold integers or do not resolve, the fallback selects integers \<open>g\<close> and \<open>p\<close>, the
  normalizer returns a record, and its \<open>nonPenaltyGoals\<close> is \<open>max 0 d\<close> for \<open>d\<close> the
  double nearest to \<open>g - p\<close>. It is never negative, also when \<open>p\<close> exceeds \<open>g\<close>, and
  it equals \<open>max 0 (g - p)\<close> whenever \<open>g - p\<close> is at most \<open>2^53\<close> in magnitude.
\<close>

theorem nonPenaltyGoals_clamped:
  assumes "absent_or_int (stats_val GoalsTotal fm)" and "absent_or_int (legacy_val GoalsTotal fm)"
    and "absent_or_int (stats_val Pens fm)" and "absent_or_int (legacy_val Pens fm)"
  shows "\<exists>g p r. selected GoalsTotal fm = JNum g \<and> selected Pens fm = JNum p
           \<and> toFantasyStat nm fm = Inr r
           \<and> nonPenaltyGoals r = max0 (nearest_double (sint g - sint p))
           \<and> nonneg_num (nonPenaltyGoals r)
           \<and> (\<bar>sint g - sint p\<bar> \<le> 2 ^ 53 \<longrightarrow>
                nonPenaltyGoals r = NumInt (max 0 (sint g - sint p)))"
proof -
  obtain g where g: "selected GoalsTotal fm = JNum g"
    using fallback_int [OF assms(1,2)] by (auto simp: selected_def)
  obtain p where p: "selected Pens fm = JNum p"
    using fallback_int [OF assms(3,4)] by (auto simp: selected_def)
  have "\<bar>sint g - sint p\<bar> < 2 ^ 54"
    using sint_number_range [of g] sint_number_range [of p] by (simp add: abs_less_iff)
  then have n: "nonneg_num (max0 (nearest_double (sint g - sint p)))"
    using nearest_double_integer [of "sint g - sint p"] by (simp add: max0_nonneg)
  show ?thesis
    using g p n toFantasyStat_ints [OF g p, of nm] by (simp add: nearest_double_exact)
qed

text \<open>Penalties exceeding the total: 2 goals, 5 of them penalties, give 0.\<close>

theorem nonPenaltyGoals_clamped_witness:
  "selected GoalsTotal (JObj [(''stats'', JObj [(''goals'', JNum 2), (''penaltiesScored'', JNum 5)])]) = JNum 2
   \<and> selected Pens (JObj [(''stats'', JObj [(''goals'', JNum 2), (''penaltiesScored'', JNum 5)])]) = JNum 5
   \<and> (\<exists>r. toFantasyStat (JStr ''A'')
             (JObj [(''stats'', JObj [(''goals'', JNum 2), (''penaltiesScored'', JNum 5)])]) = Inr r
          \<and> nonPenaltyGoals r = NumInt 0 \<and> nonneg_num (nonPenaltyGoals r))"
proof -
  let ?b = "JObj [(''stats'', JObj [(''goals'', JNum 2), (''penaltiesScored'', JNum 5)])]"
  have g: "selected GoalsTotal ?b = JNum 2" and p: "selected Pens ?b = JNum 5"
    by (simp_all add: selected_def opt_get_def js_or_def)
  obtain g' p' r where r: "selected GoalsTotal ?b = JNum g'" "selected Pens ?b = JNum p'"
      "toFantasyStat (JStr ''A'') ?b = Inr r" "nonneg_num (nonPenaltyGoals r)"
      "\<bar>sint g' - sint p'\<bar> \<le> 2 ^ 53 \<longrightarrow> nonPenaltyGoals r = NumInt (max 0 (sint g' - sint p'))"
    using nonPenaltyGoals_clamped [of ?b "JStr ''A''"] by (auto simp: opt_get_def)
  from r(1,2) g p have "g' = 2" "p' = 5" by simp_all
  with r(5) have "nonPenaltyGoals r = NumInt 0" by simp
  with g p r(3,4) show ?thesis by blast
qed

text \<open>
  C3 as stated fails: with \<^verbatim>\<open>stats.goals = 9007199254740991\<close> and
  \<^verbatim>\<open>stats.penaltiesScored = -2\<close> the difference is 9007199254740993, which is not a
  double; the subtraction of line 24 gives 9007199254740992.
\<close>

theorem difference_is_rounded:
  "absent_or_int (stats_val GoalsTotal (JObj [(''stats'', JObj [(''goals'', JNum 9007199254740991), (''penaltiesScored'', JNum (- 2))])]))
   \<and> absent_or_int (legacy_val GoalsTotal (JObj [(''stats'', JObj [(''goals'', JNum 9007199254740991), (''penaltiesScored'', JNum (- 2))])]))
   \<and> absent_or_int (stats_val Pens (JObj [(''stats'', JObj [(''goals'', JNum 9007199254740991), (''penaltiesScored'', JNum (- 2))])]))
   \<and> absent_or_int (legacy_val Pens (JObj [(''stats'', JObj [(''goals'', JNum 9007199254740991), (''penaltiesScored'', JNum (- 2))])]))
   \<and> selected GoalsTotal (JObj [(''stats'', JObj [(''goals'', JNum 9007199254740991), (''penaltiesScored'', JNum (- 2))])]) = JNum 9007199254740991
   \<and> selected Pens (JObj [(''stats'', JObj [(''goals'', JNum 9007199254740991), (''penaltiesScored'', JNum (- 2))])]) = JNum (- 2)
   \<and> sint (9007199254740991 :: 54 word) = 9007199254740991
   \<and> sint (- 2 :: 54 word) = - 2
   \<and> max 0 (9007199254740991 - (- 2)) = (9007199254740993 :: int)
   \<and> toFantasyStat (JStr ''A'') (JObj [(''stats'', JObj [(''goals'', JNum 9007199254740991), (''penaltiesScored'', JNum (- 2))])])
       = Inr ((zero_stat (JStr ''A''))
               \<lparr> nonPenaltyGoals := NumInt 9007199254740992, penaltyGoals := JNum (- 2) \<rparr>)"
  by (simp add: toFantasyStat_def js_sub_def nearest_double_def selected_def opt_get_def
      js_or_def zero_stat_def)

text \<open>
  C4, as amended: for each of the six fields, the value under \<^verbatim>\<open>stats\<close> is selected
  whenever it is truthy, whatever the legacy path holds; the legacy value is selected
  when the \<^verbatim>\<open>stats\<close> value is falsy and the legacy value is truthy; the default 0 is
  selected when both are falsy.
\<close>

theorem fallback_order:
  "(truthy (stats_val f fm) \<longrightarrow> selected f fm = stats_val f fm)
   \<and> (\<not> truthy (stats_val f fm) \<and> truthy (legacy_val f fm) \<longrightarrow> selected f fm = legacy_val f fm)
   \<and> (\<not> truthy (stats_val f fm) \<and> \<not> truthy (legacy_val f fm) \<longrightarrow> selected f fm = JNum 0)"
  by (simp add: selected_def js_or_def)

theorem fallback_order_witness:
  "truthy (stats_val GoalsTotal (JObj [(''stats'', JObj [(''goals'', JNum 20)]), (''goals'', JObj [(''total'', JNum 7)])]))
   \<and> selected GoalsTotal (JObj [(''stats'', JObj [(''goals'', JNum 20)]), (''goals'', JObj [(''total'', JNum 7)])]) = JNum 20
   \<and> \<not> truthy (stats_val Red (JObj [(''cards'', JObj [(''red'', JNum 1)])]))
   \<and> truthy (legacy_val Red (JObj [(''cards'', JObj [(''red'', JNum 1)])]))
   \<and> selected Red (JObj [(''cards'', JObj [(''red'', JNum 1)])]) = JNum 1
   \<and> \<not> truthy (stats_val Minutes (JObj []))
   \<and> \<not> truthy (legacy_val Minutes (JObj []))
   \<and> selected Minutes (JObj []) = JNum 0"
  using fallback_order [of GoalsTotal "JObj [(''stats'', JObj [(''goals'', JNum 20)]), (''goals'', JObj [(''total'', JNum 7)])]"]
    fallback_order [of Red "JObj [(''cards'', JObj [(''red'', JNum 1)])]"]
    fallback_order [of Minutes "JObj []"]
  by (simp add: opt_get_def)

text \<open>C4 as stated fails: with \<^verbatim>\<open>stats.goals\<close> present and equal to 0 and
  \<^verbatim>\<open>goals.total\<close> equal to 3, both paths are present and the legacy value is selected.\<close>

theorem present_stats_value_loses:
  "stats_val GoalsTotal (JObj [(''stats'', JObj [(''goals'', JNum 0)]), (''goals'', JObj [(''total'', JNum 3)])]) = JNum 0
   \<and> legacy_val GoalsTotal (JObj [(''stats'', JObj [(''goals'', JNum 0)]), (''goals'', JObj [(''total'', JNum 3)])]) = JNum 3
   \<and> selected GoalsTotal (JObj [(''stats'', JObj [(''goals'', JNum 0)]), (''goals'', JObj [(''total'', JNum 3)])]) = JNum 3"
  by (simp add: selected_def opt_get_def js_or_def)

text \<open>
  C5: a request whose body has no \<^verbatim>\<open>players\<close> field, or one that is not an array, or
  an empty array, is answered 400 with \<^verbatim>\<open>{"error": "players array required"}\<close>, and
  no provider call is made: the call list is empty and the provider's state is the one
  before. (\<^verbatim>\<open>express.json\<close> always hands the handler an object or an array as the
  body, never \<^verbatim>\<open>null\<close> or \<^verbatim>\<open>undefined\<close>.)
\<close>

theorem validation_rejects:
  assumes "\<not> nullish reqbody"
    and "get reqbody ''players'' = JUndefined \<or> \<not> is_array (get reqbody ''players'')
         \<or> get reqbody ''players'' = JArr []"
  shows "handler fotmob p reqbody =
           (\<lparr> status = 400, payload = ErrorBody ''players array required'' \<rparr>, [], p)"
proof -
  have "(case get reqbody ''players'' of JArr xs \<Rightarrow> xs | _ \<Rightarrow> []) = []"
    using assms(2) by (cases "get reqbody ''players''") auto
  then show ?thesis
    using assms(1) by (simp add: handler_def dot_get_def)
qed

theorem validation_rejects_witness:
  "handler nobody () (JObj [(''season'', JNum 2025)]) =
      (\<lparr> status = 400, payload = ErrorBody ''players array required'' \<rparr>, [], ())
   \<and> handler nobody () (JObj [(''players'', JStr ''Erling Haaland'')]) =
      (\<lparr> status = 400, payload = ErrorBody ''players array required'' \<rparr>, [], ())
   \<and> handler nobody () (JObj [(''players'', JArr [])]) =
      (\<lparr> status = 400, payload = ErrorBody ''players array required'' \<rparr>, [], ())"
  using validation_rejects [of "JObj [(''season'', JNum 2025)]" nobody "()"]
    validation_rejects [of "JObj [(''players'', JStr ''Erling Haaland'')]" nobody "()"]
    validation_rejects [of "JObj [(''players'', JArr [])]" nobody "()"]
  by simp

text \<open>
  C6: for every name, the normalizer on \<^verbatim>\<open>null\<close> returns the record with the six
  numeric fields 0, \<open>motm\<close> false and \<open>name\<close> the input; and when the search for a name
  returns no candidate, or a candidate without an identifier, the iteration makes no
  detail call and assigns that same record under the name.
\<close>

theorem unknown_player_zero_record:
  assumes "search fotmob (prov w) (JStr n) = (Returns results, p')"
    and "best_of results = JNull \<or> opt_get (best_of results) ''id'' = JUndefined"
  shows "toFantasyStat (JStr n) JNull =
           Inr \<lparr> name = JStr n, nonPenaltyGoals = NumInt 0, penaltyGoals = JNum 0,
                 assists = JNum 0, minutes = JNum 0, yellowCards = JNum 0,
                 redCards = JNum 0, motm = False \<rparr>
         \<and> resolve_name fotmob (JStr n) w =
           (None, w\<lparr> out := set_prop (out w) n (zero_stat (JStr n)),
                      calls := calls w @ [Search (JStr n)], prov := p' \<rparr>)"
proof -
  have id: "\<not> truthy (opt_get (best_of results) ''id'')"
    using assms(2) by (auto simp: opt_get_def)
  have "try_body fotmob (JStr n) w =
          (None, w\<lparr> out := set_prop (out w) n (zero_stat (JStr n)),
                     calls := calls w @ [Search (JStr n)], prov := p' \<rparr>)"
    using assms(1) id by (simp add: try_body_def assign_null)
  then show ?thesis
    using toFantasyStat_null [of "JStr n"] by (simp add: resolve_name_def zero_stat_def)
qed

text \<open>An empty candidate list, and a candidate that has a name but no \<^verbatim>\<open>id\<close>.\<close>

theorem unknown_player_zero_record_witness:
  "resolve_name nobody (JStr ''Unknown Player XYZ'') \<lparr> out = Map.empty, calls = [], prov = () \<rparr> =
     (None, \<lparr> out = [''Unknown Player XYZ'' \<mapsto> zero_stat (JStr ''Unknown Player XYZ'')],
              calls = [Search (JStr ''Unknown Player XYZ'')], prov = () \<rparr>)
   \<and> resolve_name
       (stateless (\<lambda>n. Returns (JObj [(''players'', JArr [JObj [(''name'', n)]])]))
          (\<lambda>i. Returns JUndefined))
       (JStr ''Unknown Player XYZ'') \<lparr> out = Map.empty, calls = [], prov = () \<rparr> =
     (None, \<lparr> out = [''Unknown Player XYZ'' \<mapsto> zero_stat (JStr ''Unknown Player XYZ'')],
              calls = [Search (JStr ''Unknown Player XYZ'')], prov = () \<rparr>)"
  using unknown_player_zero_record [of nobody "\<lparr> out = Map.empty, calls = [], prov = () \<rparr>"
      "''Unknown Player XYZ''" "JObj [(''players'', JArr [])]" "()"]
    unknown_player_zero_record
      [of "stateless (\<lambda>n. Returns (JObj [(''players'', JArr [JObj [(''name'', n)]])]))
             (\<lambda>i. Returns JUndefined)"
        "\<lparr> out = Map.empty, calls = [], prov = () \<rparr>" "''Unknown Player XYZ''"
        "JObj [(''players'', JArr [JObj [(''name'', JStr ''Unknown Player XYZ'')]])]" "()"]
  by (simp add: nobody_def stateless_def best_of_def opt_get_def js_or_def js_and_def
      set_prop_def)

text \<open>
  C7 (the normalizer never raises): the code breaks it. For the blob
  \<^verbatim>\<open>{"stats": {"goals": {"toString": 1}}}\<close> the selected total is an object whose own
  \<^verbatim>\<open>toString\<close> is not callable, and the subtraction of line 24 throws a \<^verbatim>\<open>TypeError\<close>.
\<close>

theorem toFantasyStat_throws:
  "toFantasyStat (JStr ''A'') (JObj [(''stats'', JObj [(''goals'', JObj [(''toString'', JNum 1)])])])
     = Inl TypeError"
  by (simp add: toFantasyStat_def js_sub_def nearest_double_def selected_def opt_get_def js_or_def)




text \<open>
  C9: the fallback is decided by truthiness. For each of the six fields, when the value
  under \<^verbatim>\<open>stats\<close> is falsy (0 included, although present) the legacy value is selected
  if it is truthy, and 0 otherwise.
\<close>

theorem falsy_stats_uses_legacy:
  assumes "\<not> truthy (stats_val f fm)"
  shows "selected f fm = (if truthy (legacy_val f fm) then legacy_val f fm else JNum 0)"
  using assms by (simp add: selected_def js_or_def)

text \<open>\<^verbatim>\<open>stats.goals = 0\<close> and \<^verbatim>\<open>goals.total = 7\<close> normalize with a total of 7.\<close>

theorem falsy_stats_uses_legacy_witness:
  "\<not> truthy (stats_val GoalsTotal (JObj [(''stats'', JObj [(''goals'', JNum 0)]), (''goals'', JObj [(''total'', JNum 7)])]))
   \<and> selected GoalsTotal (JObj [(''stats'', JObj [(''goals'', JNum 0)]), (''goals'', JObj [(''total'', JNum 7)])]) = JNum 7
   \<and> toFantasyStat (JStr ''A'') (JObj [(''stats'', JObj [(''goals'', JNum 0)]), (''goals'', JObj [(''total'', JNum 7)])])
       = Inr ((zero_stat (JStr ''A'')) \<lparr> nonPenaltyGoals := NumInt 7 \<rparr>)"
proof -
  let ?b = "JObj [(''stats'', JObj [(''goals'', JNum 0)]), (''goals'', JObj [(''total'', JNum 7)])]"
  have f: "\<not> truthy (stats_val GoalsTotal ?b)" by (simp add: opt_get_def)
  have s: "selected GoalsTotal ?b = JNum 7"
    using falsy_stats_uses_legacy [OF f] by (simp add: opt_get_def)
  have p: "selected Pens ?b = JNum 0" by (simp add: selected_def opt_get_def js_or_def)
  have "toFantasyStat (JStr ''A'') ?b = Inr ((zero_stat (JStr ''A'')) \<lparr> nonPenaltyGoals := NumInt 7 \<rparr>)"
    using toFantasyStat_ints [OF s p, of "JStr ''A''"]
    by (simp add: zero_stat_def selected_def opt_get_def js_or_def nearest_double_def)
  with f s show ?thesis by simp
qed



end
